theory Spec2Isabelle
  imports Complex_Main "HOL-Library.Log_Nat"
begin

section \<open>JavaScript numbers\<close>

text \<open>
  The inventory edge function is TypeScript run by Deno: every \<open>number\<close> is an IEEE 754
  binary64 value and \<open>*\<close>, \<open>-\<close>, \<open>+\<close> round their exact result to the nearest
  binary64 value, ties to even. A finite number is modelled by the rational it denotes;
  \<open>double_of\<close> is the rounding (53 significant bits, least exponent \<open>-1074\<close>).
  Infinities and NaN are not represented: a JSON body cannot carry them, and the
  handlers below never produce them from finite operands within the column ranges.
  \<open>rne\<close> rounds to the nearest integer, a tie going to the even one; \<open>ilog2 x\<close> is the
  exponent of the leading binary digit of a positive \<open>x\<close>.
\<close>

definition rne :: "rat \<Rightarrow> int" where
  "rne r = (let n = \<lfloor>r\<rfloor>; d = r - of_int n in
     if d < 1 / 2 then n else if 1 / 2 < d then n + 1 else if even n then n else n + 1)"

definition ilog2 :: "rat \<Rightarrow> int" where
  "ilog2 x = (if 1 \<le> x then bitlen \<lfloor>x\<rfloor> - 1 else - bitlen (\<lceil>1 / x\<rceil> - 1))"

definition double_of :: "rat \<Rightarrow> rat" where
  "double_of x = (if x = 0 then 0 else
     let e = max (ilog2 \<bar>x\<bar> - 52) (- 1074)
     in sgn x * of_int (rne (\<bar>x\<bar> / 2 powi e)) * 2 powi e)"

definition js_mul :: "rat \<Rightarrow> rat \<Rightarrow> rat" where
  "js_mul x y = double_of (x * y)"

definition js_sub :: "rat \<Rightarrow> rat \<Rightarrow> rat" where
  "js_sub x y = double_of (x - y)"

definition js_add :: "rat \<Rightarrow> rat \<Rightarrow> rat" where
  "js_add x y = double_of (x + y)"


section \<open>The store\<close>

text \<open>
  The tables of the migration, as far as the inventory function touches them:
  \<open>sweets\<close> (\<open>price numeric(10, 2)\<close>, \<open>quantity integer CHECK (quantity >= 0)\<close>),
  \<open>purchases\<close> (\<open>quantity integer CHECK (quantity > 0)\<close>,
  \<open>total_price numeric(10, 2) CHECK (total_price >= 0)\<close>, \<open>sweet_id\<close> referencing
  \<open>sweets\<close>) and \<open>user_profiles\<close> (\<open>is_admin\<close>). A table is a map from the primary
  key to the row. The description of a sweet and the generated columns (\<open>id\<close> of a
  purchase, the timestamps) are left out. The column \<open>total_price\<close> holds two
  decimals: the total handed to the insert is rounded to them, and the row that is stored
  and returned carries the rounded total.
  The column \<open>purchases.quantity\<close> is the field \<open>purchase_quantity\<close>.
\<close>

record sweet =
  name :: string
  category :: string
  price :: rat
  quantity :: int

record purchase =
  user_id :: string
  sweet_id :: string
  purchase_quantity :: int
  total_price :: rat

record store =
  sweets :: "string \<rightharpoonup> sweet"
  purchases :: "purchase list"
  user_profiles :: "string \<rightharpoonup> bool"

text \<open>
  Every call of the Supabase client is one round trip that either reports an error or
  succeeds. A call can fail for reasons outside the program (network, service); the record
  \<open>faults\<close> says, for each call site of a handler run, whether it does. The calls a
  handler issues are recorded in order.
\<close>

record faults =
  profile_fault :: bool
  select_fault :: bool
  update_fault :: bool
  insert_fault :: bool
  rollback_fault :: bool

datatype store_call =
    SelectProfile string
  | SelectSweet string
  | UpdateQuantity string rat
  | InsertPurchase string string rat rat

text \<open>A value fits an \<open>integer\<close> column when it is a whole number in the 32-bit range.\<close>

definition is_int4 :: "rat \<Rightarrow> bool" where
  "is_int4 v \<longleftrightarrow> of_int \<lfloor>v\<rfloor> = v \<and> - 2147483648 \<le> v \<and> v \<le> 2147483647"

text \<open>\<open>from('sweets').select(...).eq('id', id).single()\<close>: the row, or an error
  (\<open>None\<close>) when the call fails or no row has this id.\<close>

definition select_sweet :: "bool \<Rightarrow> store \<Rightarrow> string \<Rightarrow> sweet option" where
  "select_sweet fault st sid = (if fault then None else sweets st sid)"

text \<open>\<open>from('user_profiles').select('is_admin').eq('id', uid).maybeSingle()\<close>; the
  handler keeps only \<open>data\<close>, which is null when the call fails or no row exists.\<close>

definition select_profile :: "bool \<Rightarrow> store \<Rightarrow> string \<Rightarrow> bool option" where
  "select_profile fault st uid = (if fault then None else user_profiles st uid)"

text \<open>\<open>from('sweets').update({ quantity: v }).eq('id', id)\<close>: an unconditional write
  to the row with this id. \<open>None\<close> is an error; with no matching row nothing is written
  and no error is reported.\<close>

definition update_quantity :: "bool \<Rightarrow> store \<Rightarrow> string \<Rightarrow> rat \<Rightarrow> store option" where
  "update_quantity fault st sid v =
     (if fault then None
      else if is_int4 v
      then
       (case sweets st sid of
          None \<Rightarrow> Some st
        | Some s \<Rightarrow>
            if v < 0 then None
            else Some (st\<lparr>sweets := (sweets st)(sid \<mapsto> s\<lparr>quantity := \<lfloor>v\<rfloor>\<rparr>)\<rparr>))
      else None)"

text \<open>The same write followed by \<open>.select().single()\<close>, which returns the written row
  and is an error when no row matched.\<close>

definition update_quantity_returning ::
  "bool \<Rightarrow> store \<Rightarrow> string \<Rightarrow> rat \<Rightarrow> (store \<times> sweet) option" where
  "update_quantity_returning fault st sid v =
     (case update_quantity fault st sid v of
        None \<Rightarrow> None
      | Some st' \<Rightarrow> (case sweets st' sid of None \<Rightarrow> None | Some s \<Rightarrow> Some (st', s)))"

text \<open>A value stored in a \<open>numeric(10, 2)\<close> column is rounded to two decimals, a tie
  going away from zero. The store receives a number as JSON text, the shortest decimal
  that reads back as the same binary64 value; the rounding here is applied to the value
  itself, which gives the same two decimals unless the value lies within one unit in its
  last place of a half cent.\<close>

definition numeric_10_2 :: "rat \<Rightarrow> rat" where
  "numeric_10_2 x =
     (if 0 \<le> x then of_int (round (x * 100)) / 100
      else - (of_int (round (- x * 100)) / 100))"

text \<open>\<open>from('purchases').insert([row]).select().single()\<close>: the row is accepted when
  the quantity is a positive 32-bit integer, the total rounded to two decimals is not
  negative and has at most eight integer digits, and the sweet exists. The row stored and
  returned holds the rounded total.\<close>

definition insert_purchase ::
  "bool \<Rightarrow> store \<Rightarrow> string \<Rightarrow> string \<Rightarrow> rat \<Rightarrow> rat \<Rightarrow> (store \<times> purchase) option" where
  "insert_purchase fault st uid sid q tp =
     (if fault then None
      else if is_int4 q \<and> 0 < q \<and> - (1 / 200) < tp \<and> tp < 99999999995 / 1000
              \<and> sweets st sid \<noteq> None
      then
        let p = \<lparr>user_id = uid, sweet_id = sid, purchase_quantity = \<lfloor>q\<rfloor>,
                  total_price = numeric_10_2 tp\<rparr>
        in Some (st\<lparr>purchases := purchases st @ [p]\<rparr>, p)
      else None)"


section \<open>The inventory function\<close>

text \<open>
  Request bodies: \<open>PurchaseRequest\<close> and \<open>RestockRequest\<close> are the same interface,
  \<open>{ sweetId: string; quantity: number }\<close>. A body is \<open>Inl msg\<close> when \<open>req.json()\<close>
  throws (the \<open>catch\<close> answers 500 with the message) and \<open>Inr\<close> of the parsed object
  otherwise; a missing field is falsy like \<open>''\<close> and \<open>0\<close>. The field \<open>quantity\<close> of a
  request is \<open>req_quantity\<close> here, \<open>quantity\<close> being the column of \<open>sweets\<close>.

  Response bodies: \<open>Error msg\<close> is \<open>{ error: msg }\<close>, \<open>InsufficientStock n\<close> is
  \<open>{ error: 'Insufficient stock', available: n }\<close>, \<open>PurchaseSuccessful p n\<close> is
  \<open>{ message: 'Purchase successful', purchase: p, remainingStock: n }\<close> and
  \<open>RestockSuccessful row n\<close> is
  \<open>{ message: 'Restock successful', sweet: row, newQuantity: n }\<close>.
\<close>

record PurchaseRequest =
  sweetId :: string
  req_quantity :: rat

type_synonym RestockRequest = PurchaseRequest

datatype body =
    Error string
  | InsufficientStock rat
  | PurchaseSuccessful purchase rat
  | RestockSuccessful sweet rat

datatype response = Response (status: nat) (payload: body)

text \<open>
  The \<open>/purchase\<close> branch, entered after the bearer token resolved to the user \<open>uid\<close>.
  Requests without a valid token are answered 401 before this point. A row read from
  \<open>sweets\<close> reaches the handler as JSON: \<open>sweet.quantity\<close> is the integer itself
  (every 32-bit integer is a binary64 value) and \<open>sweet.price\<close> the binary64 value
  nearest to the decimal.
\<close>

definition purchase ::
  "faults \<Rightarrow> store \<Rightarrow> string \<Rightarrow> string + PurchaseRequest
     \<Rightarrow> response \<times> store \<times> store_call list" where
  "purchase f st uid b =
     (case b of
        Inl msg \<Rightarrow> (Response 500 (Error msg), st, [])
      | Inr r \<Rightarrow>
         (if sweetId r = [] \<or> req_quantity r = 0 \<or> req_quantity r \<le> 0
          then (Response 400 (Error ''Invalid sweetId or quantity''), st, [])
          else
           (case select_sweet (select_fault f) st (sweetId r) of
              None \<Rightarrow> (Response 404 (Error ''Sweet not found''), st, [SelectSweet (sweetId r)])
            | Some sw \<Rightarrow>
               (if of_int (quantity sw) < req_quantity r
                then (Response 400 (InsufficientStock (of_int (quantity sw))), st,
                      [SelectSweet (sweetId r)])
                else
                  let totalPrice = js_mul (double_of (price sw)) (req_quantity r);
                      remaining = js_sub (of_int (quantity sw)) (req_quantity r);
                      calls = [SelectSweet (sweetId r), UpdateQuantity (sweetId r) remaining]
                  in
                   (case update_quantity (update_fault f) st (sweetId r) remaining of
                      None \<Rightarrow> (Response 500 (Error ''Failed to update inventory''), st, calls)
                    | Some st1 \<Rightarrow>
                        let calls1 = calls @
                              [InsertPurchase uid (sweetId r) (req_quantity r) totalPrice]
                        in
                         (case insert_purchase (insert_fault f) st1 uid (sweetId r)
                                  (req_quantity r) totalPrice of
                            None \<Rightarrow>
                              (Response 500 (Error ''Failed to record purchase''),
                               (case update_quantity (rollback_fault f) st1 (sweetId r)
                                       (of_int (quantity sw)) of
                                  None \<Rightarrow> st1
                                | Some st2 \<Rightarrow> st2),
                               calls1 @ [UpdateQuantity (sweetId r) (of_int (quantity sw))])
                          | Some (st2, p) \<Rightarrow>
                              (Response 200 (PurchaseSuccessful p remaining), st2, calls1)))))))"

text \<open>The \<open>/restock\<close> branch: the profile is read and checked before the body is.\<close>

definition restock ::
  "faults \<Rightarrow> store \<Rightarrow> string \<Rightarrow> string + RestockRequest
     \<Rightarrow> response \<times> store \<times> store_call list" where
  "restock f st uid b =
     (if select_profile (profile_fault f) st uid \<noteq> Some True
      then (Response 403 (Error ''Admin access required''), st, [SelectProfile uid])
      else
       (case b of
          Inl msg \<Rightarrow> (Response 500 (Error msg), st, [SelectProfile uid])
        | Inr r \<Rightarrow>
           (if sweetId r = [] \<or> req_quantity r = 0 \<or> req_quantity r \<le> 0
            then (Response 400 (Error ''Invalid sweetId or quantity''), st,
                  [SelectProfile uid])
            else
             (case select_sweet (select_fault f) st (sweetId r) of
                None \<Rightarrow> (Response 404 (Error ''Sweet not found''), st,
                         [SelectProfile uid, SelectSweet (sweetId r)])
              | Some sw \<Rightarrow>
                  let newQuantity = js_add (of_int (quantity sw)) (req_quantity r);
                      calls = [SelectProfile uid, SelectSweet (sweetId r),
                               UpdateQuantity (sweetId r) newQuantity]
                  in
                   (case update_quantity_returning (update_fault f) st (sweetId r)
                            newQuantity of
                      None \<Rightarrow> (Response 500 (Error ''Failed to restock''), st, calls)
                    | Some (st1, row) \<Rightarrow>
                        (Response 200 (RestockSuccessful row newQuantity), st1, calls))))))"


section \<open>Purchases whose store calls interleave\<close>

text \<open>
  The handler is an \<open>async\<close> function: it gives up control at every \<open>await\<close> of a
  store call, and the store serves the calls of all running requests one at a time. One
  step of a purchase is therefore one store call together with the synchronous code that
  follows it up to the next call; \<open>purchase_pc\<close> holds the local variables that are live
  between two steps (\<open>sweet\<close> is the row as it was read).
\<close>

datatype purchase_pc =
    Start "string + PurchaseRequest"
  | Selected PurchaseRequest sweet
  | Updated PurchaseRequest sweet
  | InsertFailed PurchaseRequest sweet
  | Finished response

fun purchase_step ::
  "faults \<Rightarrow> string \<Rightarrow> store \<Rightarrow> purchase_pc \<Rightarrow> purchase_pc \<times> store \<times> store_call list" where
  "purchase_step f uid st (Start (Inl msg)) = (Finished (Response 500 (Error msg)), st, [])"
| "purchase_step f uid st (Start (Inr r)) =
     (if sweetId r = [] \<or> req_quantity r = 0 \<or> req_quantity r \<le> 0
      then (Finished (Response 400 (Error ''Invalid sweetId or quantity'')), st, [])
      else
       (case select_sweet (select_fault f) st (sweetId r) of
          None \<Rightarrow> (Finished (Response 404 (Error ''Sweet not found'')), st,
                   [SelectSweet (sweetId r)])
        | Some sw \<Rightarrow>
           (if of_int (quantity sw) < req_quantity r
            then (Finished (Response 400 (InsufficientStock (of_int (quantity sw)))), st,
                  [SelectSweet (sweetId r)])
            else (Selected r sw, st, [SelectSweet (sweetId r)]))))"
| "purchase_step f uid st (Selected r sw) =
     (let remaining = js_sub (of_int (quantity sw)) (req_quantity r)
      in
       (case update_quantity (update_fault f) st (sweetId r) remaining of
          None \<Rightarrow> (Finished (Response 500 (Error ''Failed to update inventory'')), st,
                   [UpdateQuantity (sweetId r) remaining])
        | Some st1 \<Rightarrow> (Updated r sw, st1, [UpdateQuantity (sweetId r) remaining])))"
| "purchase_step f uid st (Updated r sw) =
     (let totalPrice = js_mul (double_of (price sw)) (req_quantity r);
          remaining = js_sub (of_int (quantity sw)) (req_quantity r);
          calls = [InsertPurchase uid (sweetId r) (req_quantity r) totalPrice]
      in
       (case insert_purchase (insert_fault f) st uid (sweetId r) (req_quantity r) totalPrice of
          None \<Rightarrow> (InsertFailed r sw, st, calls)
        | Some (st2, p) \<Rightarrow>
            (Finished (Response 200 (PurchaseSuccessful p remaining)), st2, calls)))"
| "purchase_step f uid st (InsertFailed r sw) =
     (Finished (Response 500 (Error ''Failed to record purchase'')),
      (case update_quantity (rollback_fault f) st (sweetId r) (of_int (quantity sw)) of
         None \<Rightarrow> st
       | Some st2 \<Rightarrow> st2),
      [UpdateQuantity (sweetId r) (of_int (quantity sw))])"
| "purchase_step f uid st (Finished resp) = (Finished resp, st, [])"

text \<open>A request runs alone when its steps follow each other with nothing in between.\<close>

fun purchase_steps ::
  "nat \<Rightarrow> faults \<Rightarrow> string \<Rightarrow> store \<Rightarrow> purchase_pc \<Rightarrow> purchase_pc \<times> store \<times> store_call list" where
  "purchase_steps 0 f uid st pc = (pc, st, [])"
| "purchase_steps (Suc n) f uid st pc =
     (case purchase_step f uid st pc of
        (pc1, st1, calls1) \<Rightarrow>
          (case purchase_steps n f uid st1 pc1 of
             (pc2, st2, calls2) \<Rightarrow> (pc2, st2, calls1 @ calls2)))"

text \<open>
  Several requests in flight: each is a triple of its faults, its user and its position;
  a schedule names, step by step, the request whose next store call is served.
\<close>

type_synonym process = "faults \<times> string \<times> purchase_pc"

fun interleave :: "nat list \<Rightarrow> store \<Rightarrow> process list \<Rightarrow> store \<times> process list" where
  "interleave [] st ps = (st, ps)"
| "interleave (i # sched) st ps =
     (if i < length ps
      then
       (case ps ! i of
          (f, uid, pc) \<Rightarrow>
            (case purchase_step f uid st pc of
               (pc', st', calls) \<Rightarrow> interleave sched st' (ps[i := (f, uid, pc')])))
      else interleave sched st ps)"


section \<open>Invariants and test data\<close>

text \<open>What the column types and the check constraint of \<open>sweets.quantity\<close> guarantee
  of every stored row.\<close>

definition stock_nonneg :: "store \<Rightarrow> bool" where
  "stock_nonneg st \<longleftrightarrow> (\<forall>sid s. sweets st sid = Some s \<longrightarrow> 0 \<le> quantity s)"

definition stock_in_range :: "sweet \<Rightarrow> bool" where
  "stock_in_range s \<longleftrightarrow> 0 \<le> quantity s \<and> quantity s \<le> 2147483647"

definition write_values :: "store_call list \<Rightarrow> rat list" where
  "write_values calls = concat (map (\<lambda>c. case c of UpdateQuantity sid v \<Rightarrow> [v] | _ \<Rightarrow> []) calls)"

text \<open>The product of the scenarios: \<open>{id: "p1", price: 2.99, quantity: 5}\<close>, with an
  administrator and an ordinary user.\<close>

definition no_faults :: faults where
  "no_faults = \<lparr>profile_fault = False, select_fault = False, update_fault = False,
                 insert_fault = False, rollback_fault = False\<rparr>"

definition p1 :: "int \<Rightarrow> sweet" where
  "p1 n = \<lparr>name = ''Dark Chocolate Bar'', category = ''Chocolate'', price = 299 / 100,
            quantity = n\<rparr>"

definition shop :: "int \<Rightarrow> store" where
  "shop n = \<lparr>sweets = [''p1'' \<mapsto> p1 n], purchases = [],
              user_profiles = [''admin'' \<mapsto> True, ''alice'' \<mapsto> False]\<rparr>"


section \<open>Arithmetic on whole numbers is exact\<close>

lemma rne_of_int: "rne (of_int m) = m"
  by (simp add: rne_def)

lemma rne_nonneg: "0 \<le> r \<Longrightarrow> 0 \<le> rne r"
  by (auto simp: rne_def Let_def)

lemma double_of_nonneg: "0 \<le> x \<Longrightarrow> 0 \<le> double_of x"
  by (auto simp: double_of_def Let_def rne_nonneg)

text \<open>A whole number below \<open>2\<^sup>5\<^sup>3\<close> has at most 53 bits, so its significand scaled
  to 53 bits is again whole and the rounding leaves it alone.\<close>

lemma double_of_int:
  assumes "0 \<le> i" "i < 9007199254740992"
  shows "double_of (of_int i) = of_int i"
proof (cases "i = 0")
  case True
  then show ?thesis by (simp add: double_of_def)
next
  case False
  with assms have pos: "0 < i" by simp
  define b where "b = bitlen i"
  have b1: "1 \<le> b"
    using pos bitlen_eq_zero_iff [of i] bitlen_nonneg [of i] by (simp add: b_def)
  have "i < 2 ^ nat 53" using assms by simp
  then have b53: "b \<le> 53"
    unfolding b_def using bitlen_le_iff_power [of i 53] by simp
  define k where "k = nat (53 - b)"
  have il: "ilog2 \<bar>of_int i\<bar> = b - 1"
    using pos by (simp add: ilog2_def b_def)
  have e: "max (ilog2 \<bar>of_int i\<bar> - 52) (- 1074) = - int k"
    using b1 b53 by (simp add: il k_def)
  have pw: "(2::rat) powi (- int k) = 1 / 2 ^ k"
    by (simp add: power_int_minus field_simps)
  have q: "\<bar>of_int i :: rat\<bar> / 2 powi (- int k) = of_int (i * 2 ^ k)"
    using pos by (simp add: pw)
  have "double_of (of_int i) = sgn (of_int i) * of_int (rne (of_int (i * 2 ^ k))) * (1 / 2 ^ k)"
    using pos unfolding double_of_def e Let_def q pw by simp
  also have "\<dots> = of_int i"
    using pos unfolding rne_of_int by simp
  finally show ?thesis .
qed

lemma js_sub_int:
  assumes "0 \<le> k" "k \<le> n" "n \<le> 2147483647"
  shows "js_sub (of_int n) (of_int k) = of_int (n - k)"
proof -
  have "double_of (of_int (n - k)) = of_int (n - k)"
    using assms by (intro double_of_int) auto
  then show ?thesis by (simp add: js_sub_def)
qed

lemma js_add_int:
  assumes "0 \<le> k" "0 \<le> n" "n + k \<le> 2147483647"
  shows "js_add (of_int n) (of_int k) = of_int (n + k)"
proof -
  have "double_of (of_int (n + k)) = of_int (n + k)"
    using assms by (intro double_of_int) auto
  then show ?thesis by (simp add: js_add_def)
qed

lemma js_sub_self: "js_sub x x = 0"
  by (simp add: js_sub_def double_of_def)

lemma is_int4_of_int: "is_int4 (of_int k) \<longleftrightarrow> - 2147483648 \<le> k \<and> k \<le> 2147483647"
proof -
  have "(- 2147483648 \<le> (of_int k :: rat)) = (- 2147483648 \<le> k)"
    using of_int_le_iff [of "- 2147483648" k, where ?'a = rat] by simp
  then show ?thesis by (simp add: is_int4_def)
qed

lemma is_int4_D: "is_int4 v \<Longrightarrow> v = of_int \<lfloor>v\<rfloor>"
  unfolding is_int4_def by (elim conjE) (rule sym)


section \<open>The rounding error of a product\<close>

text \<open>
  Rounding to the nearest integer is off by at most one half, and \<open>ilog2\<close> is the
  exponent of the binary digit that leads; so a normal binary64 value differs from the
  number it rounds by at most that number over \<open>2\<^sup>5\<^sup>3\<close>.
\<close>

lemma rne_error: "\<bar>of_int (rne r) - r\<bar> \<le> 1 / 2"
proof -
  define n where "n = \<lfloor>r\<rfloor>"
  have n: "of_int n \<le> r" "r < of_int n + 1"
    using floor_correct [of r] by (simp_all add: n_def)
  have "rne r = (if r - of_int n < 1 / 2 then n
                 else if 1 / 2 < r - of_int n then n + 1
                 else if even n then n else n + 1)"
    by (simp add: rne_def n_def Let_def)
  with n show ?thesis
    by (auto simp: abs_if split: if_splits)
qed

lemma ilog2_bounds:
  assumes "0 < x"
  shows "2 powi (ilog2 x) \<le> x" and "x < 2 powi (ilog2 x + 1)"
proof -
  have "2 powi (ilog2 x) \<le> x \<and> x < 2 powi (ilog2 x + 1)"
  proof (cases "1 \<le> x")
    case True
    define n where "n = \<lfloor>x\<rfloor>"
    have n1: "1 \<le> n" using True by (simp add: n_def le_floor_iff)
    have nx: "of_int n \<le> x" "x < of_int n + 1"
      using floor_correct [of x] by (simp_all add: n_def)
    have b: "2 ^ nat (bitlen n - 1) \<le> n" "n < 2 ^ nat (bitlen n)"
      using bitlen_bounds [of n] n1 by simp_all
    have b1: "1 \<le> bitlen n"
      using n1 bitlen_eq_zero_iff [of n] bitlen_nonneg [of n] by simp
    have il: "ilog2 x = bitlen n - 1" using True by (simp add: ilog2_def n_def)
    have lo: "(2::rat) powi (bitlen n - 1) = of_int (2 ^ nat (bitlen n - 1))"
      using b1 by (simp add: power_int_def)
    have hi: "(2::rat) powi (bitlen n - 1 + 1) = of_int (2 ^ nat (bitlen n))"
      using b1 by (simp add: power_int_def)
    have "(of_int (2 ^ nat (bitlen n - 1)) :: rat) \<le> of_int n"
      using b(1) by (simp only: of_int_le_iff)
    then have l: "2 powi (ilog2 x) \<le> x"
      using nx(1) unfolding il lo by linarith
    have "n + 1 \<le> 2 ^ nat (bitlen n)" using b(2) by simp
    then have "(of_int (n + 1) :: rat) \<le> of_int (2 ^ nat (bitlen n))"
      by (simp only: of_int_le_iff)
    then have u: "x < 2 powi (ilog2 x + 1)"
      using nx(2) unfolding il hi by simp
    from l u show ?thesis ..
  next
    case False
    then have x1: "x < 1" by simp
    define y where "y = 1 / x"
    have y1: "1 < y" using assms x1 by (simp add: y_def)
    define m where "m = \<lceil>y\<rceil> - 1"
    have my: "of_int m < y" "y \<le> of_int m + 1"
      using ceiling_correct [of y] by (simp_all add: m_def)
    have m1: "1 \<le> m"
      using y1 by (simp add: m_def less_ceiling_iff)
    have b: "2 ^ nat (bitlen m - 1) \<le> m" "m < 2 ^ nat (bitlen m)"
      using bitlen_bounds [of m] m1 by simp_all
    have b1: "1 \<le> bitlen m"
      using m1 bitlen_eq_zero_iff [of m] bitlen_nonneg [of m] by simp
    have il: "ilog2 x = - bitlen m" using False by (simp add: ilog2_def m_def y_def)
    have lo: "(2::rat) powi (- bitlen m) = 1 / of_int (2 ^ nat (bitlen m))"
      using b1 by (simp add: power_int_def field_simps)
    have hi: "(2::rat) powi (- bitlen m + 1) = 1 / of_int (2 ^ nat (bitlen m - 1))"
      using b1 by (simp add: power_int_def field_simps nat_diff_distrib)
    have "m + 1 \<le> 2 ^ nat (bitlen m)" using b(2) by simp
    then have "(of_int (m + 1) :: rat) \<le> of_int (2 ^ nat (bitlen m))"
      by (simp only: of_int_le_iff)
    with my(2) have "y \<le> of_int (2 ^ nat (bitlen m))" by linarith
    then have "1 / of_int (2 ^ nat (bitlen m)) \<le> 1 / y"
      using y1 by (intro divide_left_mono) auto
    then have l: "2 powi (ilog2 x) \<le> x"
      unfolding il lo using assms by (simp add: y_def)
    have "(of_int (2 ^ nat (bitlen m - 1)) :: rat) \<le> of_int m"
      using b(1) by (simp only: of_int_le_iff)
    with my(1) have "of_int (2 ^ nat (bitlen m - 1)) < y" by linarith
    then have "1 / y < 1 / of_int (2 ^ nat (bitlen m - 1))"
      by (intro divide_strict_left_mono) (auto intro: mult_pos_pos simp: y1 less_trans [OF zero_less_one y1])
    then have u: "x < 2 powi (ilog2 x + 1)"
      unfolding il hi using assms by (simp add: y_def)
    from l u show ?thesis ..
  qed
  then show "2 powi (ilog2 x) \<le> x" and "x < 2 powi (ilog2 x + 1)" by simp_all
qed

lemma ilog2_ge:
  assumes "0 < x" "2 powi n \<le> x"
  shows "n \<le> ilog2 x"
proof (rule ccontr)
  assume "\<not> n \<le> ilog2 x"
  then have "ilog2 x + 1 \<le> n" by simp
  then have "(2::rat) powi (ilog2 x + 1) \<le> 2 powi n"
    by (intro power_int_increasing) simp_all
  with ilog2_bounds(2) [OF assms(1)] assms(2) show False by linarith
qed

lemma double_of_error:
  assumes "0 < x" "- 1022 \<le> ilog2 x"
  shows "\<bar>double_of x - x\<bar> \<le> x / 9007199254740992"
proof -
  define e where "e = ilog2 x - 52"
  define s where "s = (2::rat) powi e"
  have ax: "\<bar>x\<bar> = x" using assms(1) by simp
  have emax: "max (ilog2 x - 52) (- 1074) = e" using assms(2) by (simp add: e_def)
  have spos: "0 < s" by (simp add: s_def)
  have d: "double_of x = of_int (rne (x / s)) * s"
    using assms(1) unfolding double_of_def ax emax Let_def s_def by simp
  have "double_of x - x = (of_int (rne (x / s)) - x / s) * s"
    using spos by (simp add: d field_simps)
  then have "\<bar>double_of x - x\<bar> = \<bar>of_int (rne (x / s)) - x / s\<bar> * s"
    using spos by (simp add: abs_mult)
  also have "\<dots> \<le> (1 / 2) * s"
    using rne_error [of "x / s"] spos by (intro mult_right_mono) simp_all
  finally have half: "\<bar>double_of x - x\<bar> \<le> s / 2" by simp
  have "s = 2 powi (ilog2 x) / 2 powi 52"
    unfolding s_def e_def by (rule power_int_diff) simp
  then have "s = 2 powi (ilog2 x) / 4503599627370496" by simp
  with ilog2_bounds(1) [OF assms(1)] have "s \<le> x / 4503599627370496"
    by (simp add: divide_right_mono)
  with half show ?thesis by linarith
qed

text \<open>
  A price of whole cents times a whole quantity: the binary64 total is within half a cent
  of the exact product as long as it stays below \<open>10\<^sup>8\<close>, so rounding it to two
  decimals gives the exact product.
\<close>

lemma total_cents:
  assumes "0 \<le> c" "1 \<le> k"
      and "js_mul (double_of (of_int c / 100)) (of_int k) < 100000000"
  shows "round (js_mul (double_of (of_int c / 100)) (of_int k) * 100) = c * k"
proof (cases "c = 0")
  case True
  then show ?thesis by (simp add: js_mul_def double_of_def)
next
  case False
  with assms(1) have c1: "1 \<le> c" by simp
  define p :: rat where "p = of_int c / 100"
  define P where "P = double_of p"
  define a where "a = p * of_int k"
  define X where "X = P * of_int k"
  define T where "T = double_of X"
  have k1: "(1::rat) \<le> of_int k" using assms(2) by simp
  have "(1::rat) \<le> of_int c" using c1 by simp
  then have p1: "1 / 100 \<le> p" by (simp add: p_def)
  then have ppos: "0 < p" by simp
  have "(2::rat) powi (- 7) \<le> p" using p1 by (simp add: power_int_minus_divide)
  then have "- 7 \<le> ilog2 p" by (rule ilog2_ge [OF ppos])
  then have eP: "\<bar>P - p\<bar> \<le> p / 9007199254740992"
    unfolding P_def by (intro double_of_error ppos) simp
  then have Pp: "p / 2 \<le> P" using ppos by linarith
  have "P * 1 \<le> P * of_int k"
    using k1 Pp ppos by (intro mult_left_mono) simp_all
  then have XP: "P \<le> X" by (simp add: X_def)
  have Xpos: "0 < X" using XP Pp ppos by linarith
  have "(2::rat) powi (- 8) \<le> X" using XP Pp p1 by (simp add: power_int_minus_divide)
  then have "- 8 \<le> ilog2 X" by (rule ilog2_ge [OF Xpos])
  then have eT: "\<bar>T - X\<bar> \<le> X / 9007199254740992"
    unfolding T_def by (intro double_of_error Xpos) simp
  have "X - a = (P - p) * of_int k" by (simp add: X_def a_def algebra_simps)
  then have "\<bar>X - a\<bar> = \<bar>P - p\<bar> * of_int k"
    using k1 by (simp add: abs_mult)
  also have "\<dots> \<le> (p / 9007199254740992) * of_int k"
    using eP k1 by (intro mult_right_mono) simp_all
  finally have eX: "\<bar>X - a\<bar> \<le> a / 9007199254740992" by (simp add: a_def)
  have apos: "0 < a" using ppos k1 by (simp add: a_def)
  have Tlt: "T < 100000000"
    using assms(3) by (simp add: T_def X_def P_def p_def js_mul_def)
  have "\<bar>T - a\<bar> < 1 / 200"
    using eT eX apos Tlt by linarith
  moreover have "of_int (c * k) = a * 100" by (simp add: a_def p_def)
  ultimately have "\<bar>T * 100 - of_int (c * k)\<bar> < 1 / 2"
    by linarith
  then have "round (T * 100) = c * k" by (rule round_unique')
  then show ?thesis by (simp add: T_def X_def P_def p_def js_mul_def)
qed


lemma numeric_total:
  assumes "0 \<le> c" "1 \<le> k"
      and "js_mul (double_of (of_int c / 100)) (of_int k) < 100000000"
  shows "numeric_10_2 (js_mul (double_of (of_int c / 100)) (of_int k))
           = of_int c / 100 * of_int k"
proof -
  have "0 \<le> double_of (of_int c / 100) * of_int k"
    using assms(1,2) by (intro mult_nonneg_nonneg double_of_nonneg) simp_all
  then have "0 \<le> js_mul (double_of (of_int c / 100)) (of_int k)"
    unfolding js_mul_def by (rule double_of_nonneg)
  then show ?thesis
    using total_cents [OF assms] by (simp add: numeric_10_2_def)
qed


section \<open>What the store calls change\<close>

lemma update_quantity_sweets:
  assumes "update_quantity fault st sid v = Some st'"
  shows "sweets st' = (case sweets st sid of None \<Rightarrow> sweets st
           | Some s \<Rightarrow> (sweets st)(sid \<mapsto> s\<lparr>quantity := \<lfloor>v\<rfloor>\<rparr>))"
    and "purchases st' = purchases st" and "user_profiles st' = user_profiles st"
  using assms by (auto simp: update_quantity_def split: if_splits option.splits)

lemma update_quantity_stock_nonneg:
  assumes "update_quantity fault st sid v = Some st'" "stock_nonneg st"
  shows "stock_nonneg st'"
  using assms
  by (auto simp: update_quantity_def stock_nonneg_def split: if_splits option.splits)

lemma insert_purchase_sweets:
  assumes "insert_purchase fault st uid sid q tp = Some (st', p)"
  shows "sweets st' = sweets st"
  using assms by (auto simp: insert_purchase_def Let_def split: if_splits)

lemma insert_purchase_stock_nonneg:
  assumes "insert_purchase fault st uid sid q tp = Some (st', p)" "stock_nonneg st"
  shows "stock_nonneg st'"
  using assms insert_purchase_sweets [OF assms(1)] by (simp add: stock_nonneg_def)

lemma stock_nonneg_shop: "0 \<le> n \<Longrightarrow> stock_nonneg (shop n)"
  by (simp add: stock_nonneg_def shop_def p1_def)


section \<open>The scenarios, evaluated\<close>

lemma double_of_price: "double_of (299 / 100) = 1683220360729723 / 562949953421312"
  by code_simp


lemma js_mul_price_3:
  "js_mul (1683220360729723 / 562949953421312) 3 = 5049661082189169 / 562949953421312"
  unfolding js_mul_def by code_simp

lemma js_mul_price_5:
  "js_mul (1683220360729723 / 562949953421312) 5 = 8416101803648615 / 562949953421312"
  unfolding js_mul_def by code_simp




lemma numeric_897: "numeric_10_2 (5049661082189169 / 562949953421312) = 897 / 100"
  by code_simp

lemma numeric_1495: "numeric_10_2 (8416101803648615 / 562949953421312) = 299 / 20"
  by code_simp


lemma js_sub_5_eps: "js_sub 5 (4503599627370497 / 4503599627370496) = 4"
  unfolding js_sub_def by code_simp

lemma js_mul_price_eps:
  "js_mul (1683220360729723 / 562949953421312) (4503599627370497 / 4503599627370496)
     = 6732881442918893 / 2251799813685248"
  unfolding js_mul_def by code_simp

lemma not_int4_eps: "\<not> is_int4 (4503599627370497 / 4503599627370496)"
  by code_simp

lemma js_sub_5_3: "js_sub 5 3 = 2"
  using js_sub_int [of 3 5] by simp

lemma js_sub_5_half: "js_sub 5 (5 / 2) = 5 / 2"
  unfolding js_sub_def by code_simp

lemma not_int4_half: "\<not> is_int4 (5 / 2)"
  by code_simp

lemma is_int4_numeral [simp]:
  "is_int4 0" "is_int4 2" "is_int4 3" "is_int4 4" "is_int4 5" "is_int4 10" "is_int4 12"
  using is_int4_of_int [of 0] is_int4_of_int [of 2] is_int4_of_int [of 3]
    is_int4_of_int [of 4] is_int4_of_int [of 5] is_int4_of_int [of 10]
    is_int4_of_int [of 12]
  by simp_all

lemma purchase_p1_3:
  "purchase no_faults (shop 5) ''alice'' (Inr \<lparr>sweetId = ''p1'', req_quantity = 3\<rparr>)
     = (Response 200
          (PurchaseSuccessful
             \<lparr>user_id = ''alice'', sweet_id = ''p1'', purchase_quantity = 3,
              total_price = 897 / 100\<rparr> 2),
        \<lparr>sweets = [''p1'' \<mapsto> p1 2],
         purchases = [\<lparr>user_id = ''alice'', sweet_id = ''p1'', purchase_quantity = 3,
                       total_price = 897 / 100\<rparr>],
         user_profiles = [''admin'' \<mapsto> True, ''alice'' \<mapsto> False]\<rparr>,
        [SelectSweet ''p1'', UpdateQuantity ''p1'' 2,
         InsertPurchase ''alice'' ''p1'' 3 (5049661082189169 / 562949953421312)])"
  by (simp add: purchase_def select_sweet_def update_quantity_def insert_purchase_def
        no_faults_def shop_def p1_def double_of_price js_mul_price_3 js_sub_5_3 numeric_897
        Let_def)

lemma restock_p1_10:
  "restock no_faults (shop 2) ''admin'' (Inr \<lparr>sweetId = ''p1'', req_quantity = 10\<rparr>)
     = (Response 200 (RestockSuccessful (p1 12) 12), shop 12,
        [SelectProfile ''admin'', SelectSweet ''p1'', UpdateQuantity ''p1'' 12])"
proof -
  have "js_add 2 10 = 12"
    using js_add_int [of 10 2] by simp
  then show ?thesis
    by (simp add: restock_def select_profile_def select_sweet_def
          update_quantity_returning_def update_quantity_def no_faults_def shop_def p1_def
          Let_def)
qed


section \<open>Concurrent purchases\<close>

lemma purchase_step_stock_nonneg:
  assumes "stock_nonneg st" and "purchase_step f uid st pc = (pc', st', calls)"
  shows "stock_nonneg st'"
proof (cases pc)
  case (Start b)
  with assms show ?thesis
    by (cases b) (auto split: if_splits option.splits)
next
  case (Selected r sw)
  with assms show ?thesis
    by (auto simp: Let_def split: option.splits dest: update_quantity_stock_nonneg)
next
  case (Updated r sw)
  with assms show ?thesis
    by (auto simp: Let_def split: option.splits dest: insert_purchase_stock_nonneg)
next
  case (InsertFailed r sw)
  with assms show ?thesis
    by (auto split: option.splits dest: update_quantity_stock_nonneg)
next
  case (Finished resp)
  with assms show ?thesis by simp
qed

lemma interleave_stock_nonneg:
  "stock_nonneg st \<Longrightarrow> stock_nonneg (fst (interleave sched st ps))"
proof (induction sched arbitrary: st ps)
  case Nil
  then show ?case by simp
next
  case (Cons i sched)
  show ?case
  proof (cases "i < length ps")
    case False
    with Cons show ?thesis by simp
  next
    case True
    obtain f uid pc where p: "ps ! i = (f, uid, pc)" by (metis prod_cases3)
    obtain pc' st' calls where s: "purchase_step f uid st pc = (pc', st', calls)"
      by (metis prod_cases3)
    have "stock_nonneg st'"
      using purchase_step_stock_nonneg [OF Cons.prems s] .
    then have "stock_nonneg (fst (interleave sched st' (ps[i := (f, uid, pc')])))"
      by (rule Cons.IH)
    with True p s show ?thesis by simp
  qed
qed

text \<open>A request that runs alone takes at most four steps, and they compose to the
  handler as it is written.\<close>

lemma purchase_steps_purchase:
  "purchase_steps 4 f uid st (Start b)
     = (case purchase f st uid b of (resp, st', calls) \<Rightarrow> (Finished resp, st', calls))"
proof -
  have four: "(4::nat) = Suc (Suc (Suc (Suc 0)))" by simp
  show ?thesis
    unfolding four
    by (cases b) (auto simp: purchase_def Let_def split: option.splits)
qed

lemma serial_purchases:
  assumes "sweets st (sweetId r1) = Some sw" and "sweetId r2 = sweetId r1"
      and "req_quantity r1 = of_int (quantity sw)" and "req_quantity r2 = of_int (quantity sw)"
      and "purchase f1 st u1 (Inr r1) = (resp1, st1, calls1)"
      and "purchase f2 st1 u2 (Inr r2) = (resp2, st2, calls2)"
  shows "\<not> (status resp1 = 200 \<and> status resp2 = 200)"
proof
  assume both: "status resp1 = 200 \<and> status resp2 = 200"
  let ?q = "req_quantity r1"
  from assms(5) both have valid: "sweetId r1 \<noteq> []" "0 < ?q"
    by (auto simp: purchase_def split: if_splits)
  from assms(5) both valid have sel: "select_sweet (select_fault f1) st (sweetId r1) = Some sw"
    using assms(1) by (auto simp: purchase_def select_sweet_def split: if_splits option.splits)
  from assms(5) both valid sel obtain st0 where
    upd: "update_quantity (update_fault f1) st (sweetId r1) 0 = Some st0"
    by (auto simp: purchase_def Let_def js_sub_self assms(3) split: option.splits)
  from assms(5) both valid sel upd obtain p where
    ins: "insert_purchase (insert_fault f1) st0 u1 (sweetId r1) ?q
            (js_mul (double_of (price sw)) ?q) = Some (st1, p)"
    by (auto simp: purchase_def Let_def js_sub_self assms(3) split: option.splits)
  have "sweets st1 (sweetId r1) = Some (sw\<lparr>quantity := 0\<rparr>)"
    using update_quantity_sweets(1) [OF upd] insert_purchase_sweets [OF ins] assms(1) by simp
  then have "select_sweet (select_fault f2) st1 (sweetId r2) = None
      \<or> select_sweet (select_fault f2) st1 (sweetId r2) = Some (sw\<lparr>quantity := 0\<rparr>)"
    by (simp add: select_sweet_def assms(2))
  moreover have "0 < req_quantity r2" "sweetId r2 \<noteq> []"
    using valid assms(2,3,4) by simp_all
  ultimately have "status resp2 \<noteq> 200"
    using assms(6) by (auto simp: purchase_def)
  with both show False by simp
qed

text \<open>
  Claim C1, as amended. The write of the decremented stock is
  \<open>update({ quantity: sweet.quantity - quantity }).eq('id', sweetId)\<close>: it is keyed by
  the product id alone and stores the value computed from the row as it was read, with no
  check that the stored quantity still is the value read. What holds: however the store
  calls of any number of purchases interleave, no stored quantity becomes negative; and
  two purchases that each request the whole stock \<open>N\<close> of a product cannot both succeed
  when the second starts after the first has finished.
\<close>

theorem purchase_unconditional_write:
  assumes "stock_nonneg st"
  shows "stock_nonneg (fst (interleave sched st ps)) \<and>
         (sweets st (sweetId r1) = Some sw \<and> sweetId r2 = sweetId r1 \<and>
          req_quantity r1 = of_int (quantity sw) \<and> req_quantity r2 = of_int (quantity sw) \<and>
          purchase f1 st u1 (Inr r1) = (resp1, st1, calls1) \<and>
          purchase f2 st1 u2 (Inr r2) = (resp2, st2, calls2)
          \<longrightarrow> \<not> (status resp1 = 200 \<and> status resp2 = 200))"
  using interleave_stock_nonneg [OF assms] serial_purchases by blast

theorem purchase_unconditional_write_witness:
  "stock_nonneg (shop 5) \<and>
   stock_nonneg (fst (interleave [0, 1, 0, 1, 0, 1] (shop 5)
       [(no_faults, ''alice'', Start (Inr \<lparr>sweetId = ''p1'', req_quantity = 5\<rparr>)),
        (no_faults, ''bob'', Start (Inr \<lparr>sweetId = ''p1'', req_quantity = 5\<rparr>))])) \<and>
   \<not> (status (fst (purchase no_faults (shop 5) ''alice''
                     (Inr \<lparr>sweetId = ''p1'', req_quantity = 5\<rparr>))) = 200 \<and>
      status (fst (purchase no_faults
                     (fst (snd (purchase no_faults (shop 5) ''alice''
                                  (Inr \<lparr>sweetId = ''p1'', req_quantity = 5\<rparr>))))
                     ''bob'' (Inr \<lparr>sweetId = ''p1'', req_quantity = 5\<rparr>))) = 200)"
proof -
  let ?r = "\<lparr>sweetId = ''p1'', req_quantity = 5\<rparr>"
  let ?a = "purchase no_faults (shop 5) ''alice'' (Inr ?r)"
  let ?b = "purchase no_faults (fst (snd ?a)) ''bob'' (Inr ?r)"
  have h: "stock_nonneg (shop 5)" by (simp add: stock_nonneg_shop)
  have s: "sweets (shop 5) (sweetId ?r) = Some (p1 5)" by (simp add: shop_def)
  have q: "req_quantity ?r = of_int (quantity (p1 5))" by (simp add: p1_def)
  have a: "?a = (fst ?a, fst (snd ?a), snd (snd ?a))" by simp
  have b: "?b = (fst ?b, fst (snd ?b), snd (snd ?b))" by simp
  from purchase_unconditional_write [OF h, of "[0, 1, 0, 1, 0, 1]"
      "[(no_faults, ''alice'', Start (Inr ?r)), (no_faults, ''bob'', Start (Inr ?r))]"
      ?r "p1 5" ?r no_faults "''alice''" "fst ?a" "fst (snd ?a)" "snd (snd ?a)"
      no_faults "''bob''" "fst ?b" "fst (snd ?b)" "snd (snd ?b)"] h s q a b
  show ?thesis by blast
qed

text \<open>
  The claim itself fails: with stock 5, two purchases of 5 whose store calls alternate
  (both read 5, both write \<open>5 - 5\<close>, both insert) both answer 200, and two purchase rows
  for ten units, 14.95 each, stand against a stock of five.
\<close>

theorem concurrent_purchases_both_succeed:
  "interleave [0, 1, 0, 1, 0, 1] (shop 5)
     [(no_faults, ''alice'', Start (Inr \<lparr>sweetId = ''p1'', req_quantity = 5\<rparr>)),
      (no_faults, ''bob'', Start (Inr \<lparr>sweetId = ''p1'', req_quantity = 5\<rparr>))]
   = (\<lparr>sweets = [''p1'' \<mapsto> p1 0],
       purchases =
         [\<lparr>user_id = ''alice'', sweet_id = ''p1'', purchase_quantity = 5,
           total_price = 299 / 20\<rparr>,
          \<lparr>user_id = ''bob'', sweet_id = ''p1'', purchase_quantity = 5,
           total_price = 299 / 20\<rparr>],
       user_profiles = [''admin'' \<mapsto> True, ''alice'' \<mapsto> False]\<rparr>,
      [(no_faults, ''alice'',
        Finished (Response 200 (PurchaseSuccessful
          \<lparr>user_id = ''alice'', sweet_id = ''p1'', purchase_quantity = 5,
           total_price = 299 / 20\<rparr> 0))),
       (no_faults, ''bob'',
        Finished (Response 200 (PurchaseSuccessful
          \<lparr>user_id = ''bob'', sweet_id = ''p1'', purchase_quantity = 5,
           total_price = 299 / 20\<rparr> 0)))])"
  by (simp add: select_sweet_def update_quantity_def insert_purchase_def
        no_faults_def shop_def p1_def double_of_price js_mul_price_5 js_sub_self numeric_1495
        Let_def)


section \<open>A successful purchase\<close>

text \<open>
  Claim C2. When a purchase of a product whose stock is within the column range and whose
  price is a non-negative number of whole cents answers 200, the requested quantity is a
  positive whole number \<open>k\<close> not above the stock, the stored quantity is the old one
  minus \<open>k\<close>, the response carries that difference as \<open>remainingStock\<close>, and exactly
  one purchase row is appended, whose total is the price times \<open>k\<close>: the handler hands
  the binary64 product \<open>sweet.price * quantity\<close> to the insert, that product is within
  half a cent of the exact one, and the column rounds it to two decimals. One decrement
  and one insert are the only writes.
\<close>

theorem purchase_success:
  assumes "sweets st (sweetId r) = Some sw" and "stock_in_range sw"
      and "price sw = of_int c / 100" and "0 \<le> c"
      and run: "purchase f st uid (Inr r) = (resp, st', calls)" and ok: "status resp = 200"
  shows "\<exists>k p. 0 < k \<and> k \<le> quantity sw \<and> req_quantity r = of_int k \<and>
           p = \<lparr>user_id = uid, sweet_id = sweetId r, purchase_quantity = k,
                 total_price = price sw * of_int k\<rparr> \<and>
           resp = Response 200 (PurchaseSuccessful p (of_int (quantity sw - k))) \<and>
           st' = st\<lparr>sweets := (sweets st)(sweetId r \<mapsto> sw\<lparr>quantity := quantity sw - k\<rparr>),
                    purchases := purchases st @ [p]\<rparr> \<and>
           calls = [SelectSweet (sweetId r),
                    UpdateQuantity (sweetId r) (of_int (quantity sw - k)),
                    InsertPurchase uid (sweetId r) (of_int k)
                      (js_mul (double_of (price sw)) (of_int k))]"
proof -
  let ?q = "req_quantity r"
  let ?tp = "js_mul (double_of (price sw)) ?q"
  let ?rem = "js_sub (of_int (quantity sw)) ?q"
  from run ok have valid: "sweetId r \<noteq> []" "0 < ?q"
    by (auto simp: purchase_def split: if_splits)
  from run ok valid have sel: "select_sweet (select_fault f) st (sweetId r) = Some sw"
    using assms(1) by (auto simp: purchase_def select_sweet_def split: if_splits option.splits)
  from run ok valid sel have enough: "\<not> of_int (quantity sw) < ?q"
    by (auto simp: purchase_def split: if_splits)
  from run ok valid sel enough obtain st1 where
    upd: "update_quantity (update_fault f) st (sweetId r) ?rem = Some st1"
    by (auto simp: purchase_def Let_def split: option.splits)
  from run ok valid sel enough upd obtain p where
    ins: "insert_purchase (insert_fault f) st1 uid (sweetId r) ?q ?tp = Some (st', p)"
    and resp: "resp = Response 200 (PurchaseSuccessful p ?rem)"
    and calls: "calls = [SelectSweet (sweetId r), UpdateQuantity (sweetId r) ?rem,
                         InsertPurchase uid (sweetId r) ?q ?tp]"
    by (auto simp: purchase_def Let_def split: option.splits)
  from ins have int4: "is_int4 ?q"
    by (auto simp: insert_purchase_def split: if_splits)
  define k where "k = \<lfloor>?q\<rfloor>"
  have qk: "?q = of_int k" using is_int4_D [OF int4] by (simp add: k_def)
  have kpos: "0 < k" using valid(2) by (simp add: qk)
  have kle: "k \<le> quantity sw" using enough by (simp add: qk)
  have rem: "?rem = of_int (quantity sw - k)"
    using js_sub_int [of k "quantity sw"] kpos kle assms(2)
    by (simp add: qk stock_in_range_def)
  have st1: "st1 = st\<lparr>sweets := (sweets st)(sweetId r \<mapsto> sw\<lparr>quantity := quantity sw - k\<rparr>)\<rparr>"
    using upd assms(1) unfolding rem
    by (auto simp: update_quantity_def split: if_splits)
  have "js_mul (double_of (price sw)) (of_int k) < 99999999995 / 1000"
    using ins by (auto simp: insert_purchase_def qk split: if_splits)
  then have "js_mul (double_of (of_int c / 100)) (of_int k) < 100000000"
    by (simp add: assms(3))
  then have exact: "numeric_10_2 (js_mul (double_of (price sw)) (of_int k))
                      = price sw * of_int k"
    using numeric_total [of c k] assms(4) kpos by (simp add: assms(3))
  have p: "p = \<lparr>user_id = uid, sweet_id = sweetId r, purchase_quantity = k,
                 total_price = price sw * of_int k\<rparr>"
    and st': "st' = st1\<lparr>purchases := purchases st1 @ [p]\<rparr>"
    using ins exact by (auto simp: insert_purchase_def Let_def qk split: if_splits)
  show ?thesis
    using kpos kle qk p resp calls st' st1 rem
    by (intro exI [of _ k] exI [of _ p]) (simp add: qk)
qed

theorem purchase_success_witness:
  "sweets (shop 5) ''p1'' = Some (p1 5) \<and> stock_in_range (p1 5) \<and>
   price (p1 5) = of_int 299 / 100 \<and>
   (\<exists>k p. 0 < k \<and> k \<le> 5 \<and> (3::rat) = of_int k \<and>
      p = \<lparr>user_id = ''alice'', sweet_id = ''p1'', purchase_quantity = k,
            total_price = 299 / 100 * of_int k\<rparr> \<and>
      fst (purchase no_faults (shop 5) ''alice'' (Inr \<lparr>sweetId = ''p1'', req_quantity = 3\<rparr>))
        = Response 200 (PurchaseSuccessful p (of_int (5 - k))))"
proof -
  have a: "sweets (shop 5) (sweetId \<lparr>sweetId = ''p1'', req_quantity = 3\<rparr>) = Some (p1 5)"
    by (simp add: shop_def)
  have b: "stock_in_range (p1 5)" by (simp add: stock_in_range_def p1_def)
  have c: "price (p1 5) = of_int 299 / 100" by (simp add: p1_def)
  have d: "status (Response 200
          (PurchaseSuccessful
             \<lparr>user_id = ''alice'', sweet_id = ''p1'', purchase_quantity = 3,
              total_price = 897 / 100\<rparr> 2)) = 200" by simp
  from purchase_success [OF a b c _ purchase_p1_3 d]
  show ?thesis using a b c by (simp add: p1_def purchase_p1_3)
qed


section \<open>Compensation\<close>

text \<open>
  Claim C3, as amended. When the decrement succeeded and the insert of the purchase row
  fails, the handler issues one more write, of the quantity it read at the start, and
  answers 500 \<open>Failed to record purchase\<close>. The outcome of that write is not looked at:
  if it succeeds the store is what it was before the call, and if it fails the decrement
  stays.
\<close>

theorem purchase_compensation:
  assumes "sweets st (sweetId r) = Some sw" and "stock_in_range sw"
      and "sweetId r \<noteq> []" and "0 < req_quantity r"
      and "req_quantity r \<le> of_int (quantity sw)"
      and "\<not> select_fault f"
      and "update_quantity (update_fault f) st (sweetId r)
             (js_sub (of_int (quantity sw)) (req_quantity r)) = Some st1"
      and "insert_purchase (insert_fault f) st1 uid (sweetId r) (req_quantity r)
             (js_mul (double_of (price sw)) (req_quantity r)) = None"
      and "purchase f st uid (Inr r) = (resp, st', calls)"
  shows "resp = Response 500 (Error ''Failed to record purchase'') \<and>
         calls = [SelectSweet (sweetId r),
                  UpdateQuantity (sweetId r) (js_sub (of_int (quantity sw)) (req_quantity r)),
                  InsertPurchase uid (sweetId r) (req_quantity r)
                    (js_mul (double_of (price sw)) (req_quantity r)),
                  UpdateQuantity (sweetId r) (of_int (quantity sw))] \<and>
         (if rollback_fault f then st' = st1 else st' = st)"
proof -
  have sel: "select_sweet (select_fault f) st (sweetId r) = Some sw"
    using assms(1,6) by (simp add: select_sweet_def)
  have enough: "\<not> of_int (quantity sw) < req_quantity r"
    using assms(5) by simp
  have out: "resp = Response 500 (Error ''Failed to record purchase'')"
     "calls = [SelectSweet (sweetId r),
                  UpdateQuantity (sweetId r) (js_sub (of_int (quantity sw)) (req_quantity r)),
                  InsertPurchase uid (sweetId r) (req_quantity r)
                    (js_mul (double_of (price sw)) (req_quantity r)),
                  UpdateQuantity (sweetId r) (of_int (quantity sw))]"
     "st' = (case update_quantity (rollback_fault f) st1 (sweetId r) (of_int (quantity sw)) of
               None \<Rightarrow> st1 | Some st2 \<Rightarrow> st2)"
    using assms(3,4,7,8,9) sel enough by (auto simp: purchase_def Let_def)
  have st1: "sweets st1 = (sweets st)(sweetId r \<mapsto>
                sw\<lparr>quantity := \<lfloor>js_sub (of_int (quantity sw)) (req_quantity r)\<rfloor>\<rparr>)"
      "purchases st1 = purchases st" "user_profiles st1 = user_profiles st"
    using update_quantity_sweets [OF assms(7)] assms(1) by simp_all
  have restored: "st' = st" if "\<not> rollback_fault f"
  proof -
    have "is_int4 (of_int (quantity sw))"
      using assms(2) by (simp add: is_int4_of_int stock_in_range_def)
    moreover have "(0::rat) \<le> of_int (quantity sw)"
      using assms(2) by (simp add: stock_in_range_def)
    moreover have "(sweets st)(sweetId r \<mapsto> sw) = sweets st"
      using assms(1) by (simp add: map_upd_triv)
    ultimately show ?thesis
      using that out(3) st1 by (simp add: update_quantity_def not_less [symmetric])
  qed
  have stay: "st' = st1" if "rollback_fault f"
    using that out(3) by (simp add: update_quantity_def)
  show ?thesis using out(1,2) restored stay by simp
qed

theorem purchase_compensation_witness:
  "purchase (no_faults\<lparr>insert_fault := True\<rparr>) (shop 5) ''alice''
       (Inr \<lparr>sweetId = ''p1'', req_quantity = 3\<rparr>)
     = (Response 500 (Error ''Failed to record purchase''), shop 5,
        [SelectSweet ''p1'', UpdateQuantity ''p1'' 2,
         InsertPurchase ''alice'' ''p1'' 3 (5049661082189169 / 562949953421312),
         UpdateQuantity ''p1'' 5])"
proof -
  let ?f = "no_faults\<lparr>insert_fault := True\<rparr>"
  let ?r = "\<lparr>sweetId = ''p1'', req_quantity = 3\<rparr>"
  obtain resp st' calls where run: "purchase ?f (shop 5) ''alice'' (Inr ?r) = (resp, st', calls)"
    by (metis prod_cases3)
  have a: "sweets (shop 5) (sweetId ?r) = Some (p1 5)" by (simp add: shop_def)
  have b: "stock_in_range (p1 5)" by (simp add: stock_in_range_def p1_def)
  have c: "update_quantity (update_fault ?f) (shop 5) (sweetId ?r)
             (js_sub (of_int (quantity (p1 5))) (req_quantity ?r)) = Some (shop 2)"
    by (simp add: update_quantity_def no_faults_def shop_def p1_def js_sub_5_3)
  have d: "insert_purchase (insert_fault ?f) (shop 2) ''alice'' (sweetId ?r) (req_quantity ?r)
             (js_mul (double_of (price (p1 5))) (req_quantity ?r)) = None"
    by (simp add: insert_purchase_def)
  have "resp = Response 500 (Error ''Failed to record purchase'') \<and>
        calls = [SelectSweet ''p1'', UpdateQuantity ''p1'' 2,
         InsertPurchase ''alice'' ''p1'' 3 (5049661082189169 / 562949953421312),
         UpdateQuantity ''p1'' 5] \<and> st' = shop 5"
    using purchase_compensation [OF a b _ _ _ _ c d run]
    by (simp add: p1_def no_faults_def js_sub_5_3 double_of_price js_mul_price_3)
  with run show ?thesis by simp
qed

text \<open>
  The claim itself fails when the compensating write fails too: the call answers 500 and
  the product is left with quantity 2 instead of 5, with no purchase row.
\<close>

theorem purchase_compensation_can_fail:
  "purchase (no_faults\<lparr>insert_fault := True, rollback_fault := True\<rparr>) (shop 5) ''alice''
       (Inr \<lparr>sweetId = ''p1'', req_quantity = 3\<rparr>)
     = (Response 500 (Error ''Failed to record purchase''), shop 2,
        [SelectSweet ''p1'', UpdateQuantity ''p1'' 2,
         InsertPurchase ''alice'' ''p1'' 3 (5049661082189169 / 562949953421312),
         UpdateQuantity ''p1'' 5]) \<and>
   map_option quantity (sweets (shop 5) ''p1'') = Some 5 \<and>
   map_option quantity (sweets (shop 2) ''p1'') = Some 2"
  by (simp add: purchase_def select_sweet_def update_quantity_def insert_purchase_def
        no_faults_def shop_def p1_def double_of_price js_mul_price_3 js_sub_5_3 Let_def)


section \<open>Stock is never negative\<close>

lemma purchase_stock_nonneg:
  assumes "stock_nonneg st" and "purchase f st uid b = (resp, st', calls)"
  shows "stock_nonneg st' \<and> (\<forall>v \<in> set (write_values calls). 0 \<le> v)"
proof (cases b)
  case (Inl msg)
  with assms show ?thesis by (auto simp: purchase_def write_values_def)
next
  case (Inr r)
  show ?thesis
  proof (cases "sweetId r = [] \<or> req_quantity r = 0 \<or> req_quantity r \<le> 0")
    case True
    with assms Inr show ?thesis by (auto simp: purchase_def write_values_def)
  next
    case valid: False
    show ?thesis
    proof (cases "select_sweet (select_fault f) st (sweetId r)")
      case None
      with assms Inr valid show ?thesis by (auto simp: purchase_def write_values_def)
    next
      case (Some sw)
      then have "sweets st (sweetId r) = Some sw"
        by (simp add: select_sweet_def split: if_splits)
      with assms(1) have old: "(0::rat) \<le> of_int (quantity sw)"
        by (simp add: stock_nonneg_def)
      show ?thesis
      proof (cases "of_int (quantity sw) < req_quantity r")
        case True
        with assms Inr valid Some show ?thesis by (auto simp: purchase_def write_values_def)
      next
        case enough: False
        then have rem: "0 \<le> js_sub (of_int (quantity sw)) (req_quantity r)"
          unfolding js_sub_def by (intro double_of_nonneg) simp
        show ?thesis
        proof (cases "update_quantity (update_fault f) st (sweetId r)
                        (js_sub (of_int (quantity sw)) (req_quantity r))")
          case None
          with assms Inr valid Some enough rem show ?thesis
            by (auto simp: purchase_def write_values_def Let_def)
        next
          case upd: (Some st1)
          have st1: "stock_nonneg st1"
            using update_quantity_stock_nonneg [OF upd assms(1)] .
          show ?thesis
          proof (cases "insert_purchase (insert_fault f) st1 uid (sweetId r) (req_quantity r)
                          (js_mul (double_of (price sw)) (req_quantity r))")
            case None
            have "stock_nonneg (case update_quantity (rollback_fault f) st1 (sweetId r)
                       (of_int (quantity sw)) of None \<Rightarrow> st1 | Some st2 \<Rightarrow> st2)"
              using st1 update_quantity_stock_nonneg [of "rollback_fault f" st1]
              by (simp split: option.splits)
            with assms Inr valid Some enough rem upd None old show ?thesis
              by (auto simp: purchase_def write_values_def Let_def)
          next
            case ins: (Some a)
            obtain st2 p where a: "a = (st2, p)" by (cases a)
            have "stock_nonneg st2"
              using insert_purchase_stock_nonneg [OF ins [unfolded a] st1] .
            with assms Inr valid Some enough rem upd ins a show ?thesis
              by (auto simp: purchase_def write_values_def Let_def)
          qed
        qed
      qed
    qed
  qed
qed

lemma restock_stock_nonneg:
  assumes "stock_nonneg st" and "restock f st uid b = (resp, st', calls)"
  shows "stock_nonneg st' \<and> (\<forall>v \<in> set (write_values calls). 0 \<le> v)"
proof (cases "select_profile (profile_fault f) st uid \<noteq> Some True")
  case True
  with assms show ?thesis by (auto simp: restock_def write_values_def)
next
  case admin: False
  show ?thesis
  proof (cases b)
    case (Inl msg)
    with assms admin show ?thesis by (auto simp: restock_def write_values_def)
  next
    case (Inr r)
    show ?thesis
    proof (cases "sweetId r = [] \<or> req_quantity r = 0 \<or> req_quantity r \<le> 0")
      case True
      with assms admin Inr show ?thesis by (auto simp: restock_def write_values_def)
    next
      case valid: False
      show ?thesis
      proof (cases "select_sweet (select_fault f) st (sweetId r)")
        case None
        with assms admin Inr valid show ?thesis by (auto simp: restock_def write_values_def)
      next
        case (Some sw)
        then have "sweets st (sweetId r) = Some sw"
          by (simp add: select_sweet_def split: if_splits)
        with assms(1) have old: "(0::rat) \<le> of_int (quantity sw)"
          by (simp add: stock_nonneg_def)
        with valid have new: "0 \<le> js_add (of_int (quantity sw)) (req_quantity r)"
          unfolding js_add_def by (intro double_of_nonneg) simp
        show ?thesis
        proof (cases "update_quantity (update_fault f) st (sweetId r)
                        (js_add (of_int (quantity sw)) (req_quantity r))")
          case None
          with assms admin Inr valid Some new show ?thesis
            by (auto simp: restock_def update_quantity_returning_def write_values_def Let_def)
        next
          case upd: (Some st1)
          have "stock_nonneg st1"
            using update_quantity_stock_nonneg [OF upd assms(1)] .
          with assms admin Inr valid Some new upd show ?thesis
            by (auto simp: restock_def update_quantity_returning_def write_values_def Let_def
                  split: option.splits)
        qed
      qed
    qed
  qed
qed

text \<open>
  Claim C4. From a store in which no quantity is negative, one purchase or one restock,
  whatever the request and whichever store calls fail, leads to a store in which no
  quantity is negative; and every value the handler hands to a quantity write is itself
  non-negative (the decrement is written only after \<open>sweet.quantity < quantity\<close> was
  found false, the compensation writes the quantity read, the restock adds a positive
  amount), so the check constraint of the column is never what keeps the stock from
  going below zero.
\<close>

theorem stock_never_negative:
  assumes "stock_nonneg st"
      and "purchase f st uid b = (resp, st', calls) \<or> restock f st uid b = (resp, st', calls)"
  shows "stock_nonneg st' \<and> (\<forall>v \<in> set (write_values calls). 0 \<le> v)"
  using assms purchase_stock_nonneg restock_stock_nonneg by blast

theorem stock_never_negative_witness:
  "stock_nonneg (shop 5) \<and> stock_nonneg (shop 2) \<and>
   stock_nonneg \<lparr>sweets = [''p1'' \<mapsto> p1 2],
         purchases = [\<lparr>user_id = ''alice'', sweet_id = ''p1'', purchase_quantity = 3,
                       total_price = 897 / 100\<rparr>],
         user_profiles = [''admin'' \<mapsto> True, ''alice'' \<mapsto> False]\<rparr> \<and>
   list_all (\<lambda>v. 0 \<le> v) (write_values [SelectSweet ''p1'', UpdateQuantity ''p1'' 2,
         InsertPurchase ''alice'' ''p1'' 3 (5049661082189169 / 562949953421312)]) \<and>
   stock_nonneg (shop 12) \<and>
   list_all (\<lambda>v. 0 \<le> v) (write_values [SelectProfile ''admin'', SelectSweet ''p1'',
         UpdateQuantity ''p1'' 12])"
proof -
  have h5: "stock_nonneg (shop 5)" and h2: "stock_nonneg (shop 2)"
    by (simp_all add: stock_nonneg_shop)
  from stock_never_negative [OF h5 disjI1 [OF purchase_p1_3]]
       stock_never_negative [OF h2 disjI2 [OF restock_p1_10]] h5 h2
  show ?thesis by (simp add: list_all_iff)
qed


section \<open>Requests that are turned away\<close>

text \<open>
  Claim C5, as amended. A purchase whose requested quantity is zero or negative, whole or
  not, is answered 400 \<open>Invalid sweetId or quantity\<close> before any store call is issued,
  and the store is returned as it was.
\<close>

theorem purchase_rejects_nonpositive:
  assumes "req_quantity r \<le> 0"
  shows "purchase f st uid (Inr r)
           = (Response 400 (Error ''Invalid sweetId or quantity''), st, [])"
  using assms by (simp add: purchase_def)

theorem purchase_rejects_nonpositive_witness:
  "purchase no_faults (shop 5) ''alice'' (Inr \<lparr>sweetId = ''p1'', req_quantity = 0\<rparr>)
     = (Response 400 (Error ''Invalid sweetId or quantity''), shop 5, []) \<and>
   purchase no_faults (shop 5) ''alice'' (Inr \<lparr>sweetId = ''p1'', req_quantity = - (5 / 2)\<rparr>)
     = (Response 400 (Error ''Invalid sweetId or quantity''), shop 5, [])"
  using purchase_rejects_nonpositive
          [of "\<lparr>sweetId = ''p1'', req_quantity = 0\<rparr>" no_faults "shop 5" "''alice''"]
        purchase_rejects_nonpositive
          [of "\<lparr>sweetId = ''p1'', req_quantity = - (5 / 2)\<rparr>" no_faults "shop 5" "''alice''"]
  by simp

text \<open>
  The claim itself fails at a quantity that is positive but not whole. The validation
  \<open>!sweetId || !quantity || quantity <= 0\<close> lets \<open>2.5\<close> through: with stock 5 the
  handler reads the product and sends the write of \<open>5 - 2.5\<close>, which the
  \<open>integer\<close> column refuses, and the call answers 500 \<open>Failed to update inventory\<close>,
  not 400. The store is unchanged.
\<close>

theorem purchase_fractional_quantity:
  "purchase no_faults (shop 5) ''alice'' (Inr \<lparr>sweetId = ''p1'', req_quantity = 5 / 2\<rparr>)
     = (Response 500 (Error ''Failed to update inventory''), shop 5,
        [SelectSweet ''p1'', UpdateQuantity ''p1'' (5 / 2)])"
  by (simp add: purchase_def select_sweet_def update_quantity_def not_int4_half
        no_faults_def shop_def p1_def js_sub_5_half Let_def)

text \<open>
  Claim C6, as amended. The handler's three tests are made in order and the first that
  fails decides the answer: an empty id or a quantity that is zero or negative gives 400
  before any store call; otherwise a product that cannot be read gives 404; otherwise a
  stock below the requested quantity gives 400 with the stock. In each case the store is
  returned as it was and the only call issued, if any, is the read of the product. A
  quantity that is positive but not whole is not among the failures the handler tests
  for.
\<close>

theorem purchase_precondition_failure:
  "(sweetId r = [] \<or> req_quantity r \<le> 0 \<longrightarrow>
      purchase f st uid (Inr r)
        = (Response 400 (Error ''Invalid sweetId or quantity''), st, [])) \<and>
   (sweetId r \<noteq> [] \<and> 0 < req_quantity r \<and>
    select_sweet (select_fault f) st (sweetId r) = None \<longrightarrow>
      purchase f st uid (Inr r)
        = (Response 404 (Error ''Sweet not found''), st, [SelectSweet (sweetId r)])) \<and>
   (sweetId r \<noteq> [] \<and> 0 < req_quantity r \<and>
    select_sweet (select_fault f) st (sweetId r) = Some sw \<and>
    of_int (quantity sw) < req_quantity r \<longrightarrow>
      purchase f st uid (Inr r)
        = (Response 400 (InsufficientStock (of_int (quantity sw))), st,
           [SelectSweet (sweetId r)]))"
  by (auto simp: purchase_def)

theorem purchase_precondition_failure_witness:
  "purchase no_faults (shop 5) ''alice'' (Inr \<lparr>sweetId = ''p1'', req_quantity = - 1\<rparr>)
     = (Response 400 (Error ''Invalid sweetId or quantity''), shop 5, []) \<and>
   purchase no_faults (shop 5) ''alice'' (Inr \<lparr>sweetId = ''p9'', req_quantity = 1\<rparr>)
     = (Response 404 (Error ''Sweet not found''), shop 5, [SelectSweet ''p9'']) \<and>
   purchase no_faults (shop 5) ''alice'' (Inr \<lparr>sweetId = ''p1'', req_quantity = 6\<rparr>)
     = (Response 400 (InsufficientStock 5), shop 5, [SelectSweet ''p1''])"
  using purchase_precondition_failure
          [of "\<lparr>sweetId = ''p1'', req_quantity = - 1\<rparr>" no_faults "shop 5" "''alice''"]
        purchase_precondition_failure
          [of "\<lparr>sweetId = ''p9'', req_quantity = 1\<rparr>" no_faults "shop 5" "''alice''"]
        purchase_precondition_failure
          [of "\<lparr>sweetId = ''p1'', req_quantity = 6\<rparr>" no_faults "shop 5" "''alice''" "p1 5"]
  by (simp add: select_sweet_def no_faults_def shop_def p1_def)

text \<open>
  The claim itself fails for a quantity that is invalid by being positive but not whole.
  With stock 5 and the quantity \<open>1 + 2\<^sup>-\<^sup>5\<^sup>2\<close> (the body
  \<open>1.0000000000000002\<close>) the validation passes, \<open>5 - quantity\<close> rounds to 4 and
  that decrement is written, the insert is refused because the quantity is not whole,
  the quantity read is written back, and the answer is 500: two writes to the product's
  quantity and no 400.
\<close>

theorem purchase_invalid_quantity_writes:
  "purchase no_faults (shop 5) ''alice''
       (Inr \<lparr>sweetId = ''p1'', req_quantity = 4503599627370497 / 4503599627370496\<rparr>)
     = (Response 500 (Error ''Failed to record purchase''), shop 5,
        [SelectSweet ''p1'', UpdateQuantity ''p1'' 4,
         InsertPurchase ''alice'' ''p1'' (4503599627370497 / 4503599627370496)
           (6732881442918893 / 2251799813685248),
         UpdateQuantity ''p1'' 5])"
  by (simp add: purchase_def select_sweet_def update_quantity_def insert_purchase_def
        no_faults_def shop_def p1_def double_of_price js_mul_price_eps js_sub_5_eps
        not_int4_eps Let_def)


section \<open>The total of a purchase\<close>



text \<open>
  Claim C8. A purchase of a product that is read with a stock below the requested
  quantity answers 400 and the body carries the stock as \<open>available\<close>.
\<close>

theorem purchase_insufficient_stock:
  assumes "select_sweet (select_fault f) st (sweetId r) = Some sw"
      and "sweetId r \<noteq> []" and "0 \<le> quantity sw"
      and "of_int (quantity sw) < req_quantity r"
  shows "purchase f st uid (Inr r)
           = (Response 400 (InsufficientStock (of_int (quantity sw))), st,
              [SelectSweet (sweetId r)])"
proof -
  have "(0::rat) \<le> of_int (quantity sw)"
    using assms(3) by simp
  then have "0 < req_quantity r"
    using assms(4) by (rule le_less_trans)
  then show ?thesis
    using assms by (simp add: purchase_def)
qed

theorem purchase_insufficient_stock_witness:
  "purchase no_faults (shop 2) ''alice'' (Inr \<lparr>sweetId = ''p1'', req_quantity = 5\<rparr>)
     = (Response 400 (InsufficientStock 2), shop 2, [SelectSweet ''p1''])"
  using purchase_insufficient_stock
          [of no_faults "shop 2" "\<lparr>sweetId = ''p1'', req_quantity = 5\<rparr>" "p1 2" "''alice''"]
  by (simp add: select_sweet_def no_faults_def shop_def p1_def)


section \<open>Restock\<close>

text \<open>
  Claim C9. An administrator restocks a product that is read with quantity \<open>n\<close> by a
  positive whole number \<open>k\<close>, the sum fitting the column: the handler issues exactly one
  write, of \<open>n + k\<close>, and nothing after it. When the store accepts the write the answer
  is 200 with \<open>newQuantity\<close> \<open>n + k\<close> and the product holds \<open>n + k\<close>; when the write
  fails the answer is 500 and the store is unchanged.
\<close>

theorem restock_adds:
  assumes "select_profile (profile_fault f) st uid = Some True"
      and "\<not> select_fault f" and "sweets st (sweetId r) = Some sw" and "stock_in_range sw"
      and "sweetId r \<noteq> []" and "req_quantity r = of_int k" and "0 < k"
      and "quantity sw + k \<le> 2147483647"
  shows "restock f st uid (Inr r) =
           (if update_fault f
            then (Response 500 (Error ''Failed to restock''), st,
                  [SelectProfile uid, SelectSweet (sweetId r),
                   UpdateQuantity (sweetId r) (of_int (quantity sw + k))])
            else (Response 200 (RestockSuccessful (sw\<lparr>quantity := quantity sw + k\<rparr>)
                     (of_int (quantity sw + k))),
                  st\<lparr>sweets := (sweets st)(sweetId r \<mapsto> sw\<lparr>quantity := quantity sw + k\<rparr>)\<rparr>,
                  [SelectProfile uid, SelectSweet (sweetId r),
                   UpdateQuantity (sweetId r) (of_int (quantity sw + k))]))"
proof -
  have new: "js_add (of_int (quantity sw)) (req_quantity r) = of_int (quantity sw + k)"
    using js_add_int [of k "quantity sw"] assms(4,6,7,8) by (simp add: stock_in_range_def)
  have ok: "is_int4 (of_int (quantity sw + k))"
    using assms(4,7,8) unfolding is_int4_of_int stock_in_range_def by linarith
  have nonneg: "\<not> (of_int (quantity sw + k) :: rat) < 0"
    using assms(4,7) unfolding stock_in_range_def of_int_less_0_iff by linarith
  have sel: "select_sweet (select_fault f) st (sweetId r) = Some sw"
    using assms(2,3) by (simp add: select_sweet_def)
  have valid: "\<not> (sweetId r = [] \<or> req_quantity r = 0 \<or> req_quantity r \<le> 0)"
    using assms(5,6,7) by simp
  show ?thesis
    unfolding restock_def
    using assms(1,3) sel valid ok nonneg
    by (simp add: new Let_def update_quantity_returning_def update_quantity_def
          del: of_int_add)
qed

theorem restock_adds_witness:
  "restock no_faults (shop 2) ''admin'' (Inr \<lparr>sweetId = ''p1'', req_quantity = 10\<rparr>)
     = (Response 200 (RestockSuccessful (p1 12) 12), shop 12,
        [SelectProfile ''admin'', SelectSweet ''p1'', UpdateQuantity ''p1'' 12])"
  using restock_adds [of no_faults "shop 2" "''admin''"
          "\<lparr>sweetId = ''p1'', req_quantity = 10\<rparr>" "p1 2" 10]
  by (simp add: select_profile_def no_faults_def shop_def p1_def stock_in_range_def)

text \<open>
  Claim C10. The profile is read first: a caller whose profile is missing, cannot be read
  or is not an administrator is answered 403 whatever the body is (valid, invalid or not
  parseable) and whether or not the product exists; the only store call is the read of
  the profile, and the store is unchanged.
\<close>

theorem restock_forbidden:
  assumes "select_profile (profile_fault f) st uid \<noteq> Some True"
  shows "restock f st uid b
           = (Response 403 (Error ''Admin access required''), st, [SelectProfile uid])"
  using assms by (simp add: restock_def)

theorem restock_forbidden_witness:
  "select_profile (profile_fault no_faults) (shop 2) ''alice'' \<noteq> Some True \<and>
   restock no_faults (shop 2) ''alice'' (Inr \<lparr>sweetId = ''p1'', req_quantity = 10\<rparr>)
     = (Response 403 (Error ''Admin access required''), shop 2, [SelectProfile ''alice''])"
proof -
  have h: "select_profile (profile_fault no_faults) (shop 2) ''alice'' \<noteq> Some True"
    by (simp add: select_profile_def no_faults_def shop_def)
  show ?thesis using h restock_forbidden [OF h] by simp
qed

end
